theory Spec2Isabelle
  imports Complex_Main
begin

section \<open>Numbers\<close>

text \<open>
  The analyzer computes with numpy/pandas \<open>float64\<close> scalars.  Their arithmetic never
  raises: a division by zero or an undefined operation yields an infinity or NaN (the
  warning it emits is suppressed by \<open>warnings.filterwarnings('ignore')\<close>).  The type
  \<open>npfloat\<close> keeps exactly these special values and takes every finite value as a
  real number: rounding and the sign of zero are not modelled.
\<close>

datatype npfloat = Fin real | PInf | NInf | NaN

fun fadd :: "npfloat \<Rightarrow> npfloat \<Rightarrow> npfloat" where
  "fadd (Fin a) (Fin b) = Fin (a + b)"
| "fadd (Fin a) PInf = PInf"
| "fadd (Fin a) NInf = NInf"
| "fadd PInf (Fin b) = PInf"
| "fadd NInf (Fin b) = NInf"
| "fadd PInf PInf = PInf"
| "fadd NInf NInf = NInf"
| "fadd PInf NInf = NaN"
| "fadd NInf PInf = NaN"
| "fadd NaN y = NaN"
| "fadd x NaN = NaN"



fun fmul :: "npfloat \<Rightarrow> npfloat \<Rightarrow> npfloat" where
  "fmul (Fin a) (Fin b) = Fin (a * b)"
| "fmul (Fin a) PInf = (if a = 0 then NaN else if 0 < a then PInf else NInf)"
| "fmul (Fin a) NInf = (if a = 0 then NaN else if 0 < a then NInf else PInf)"
| "fmul PInf (Fin b) = (if b = 0 then NaN else if 0 < b then PInf else NInf)"
| "fmul NInf (Fin b) = (if b = 0 then NaN else if 0 < b then NInf else PInf)"
| "fmul PInf PInf = PInf"
| "fmul NInf NInf = PInf"
| "fmul PInf NInf = NInf"
| "fmul NInf PInf = NInf"
| "fmul NaN y = NaN"
| "fmul x NaN = NaN"

fun fdiv :: "npfloat \<Rightarrow> npfloat \<Rightarrow> npfloat" where
  "fdiv (Fin a) (Fin b) =
     (if b = 0 then (if a = 0 then NaN else if 0 < a then PInf else NInf)
      else Fin (a / b))"
| "fdiv (Fin a) PInf = Fin 0"
| "fdiv (Fin a) NInf = Fin 0"
| "fdiv PInf (Fin b) = (if 0 \<le> b then PInf else NInf)"
| "fdiv NInf (Fin b) = (if 0 \<le> b then NInf else PInf)"
| "fdiv PInf PInf = NaN"
| "fdiv NInf NInf = NaN"
| "fdiv PInf NInf = NaN"
| "fdiv NInf PInf = NaN"
| "fdiv NaN y = NaN"
| "fdiv x NaN = NaN"

fun fsqrt :: "npfloat \<Rightarrow> npfloat" where
  "fsqrt (Fin a) = (if a < 0 then NaN else Fin (sqrt a))"
| "fsqrt PInf = PInf"
| "fsqrt NInf = NaN"
| "fsqrt NaN = NaN"

text \<open>Comparisons: every comparison with NaN is false.\<close>

fun fle :: "npfloat \<Rightarrow> npfloat \<Rightarrow> bool" where
  "fle (Fin a) (Fin b) = (a \<le> b)"
| "fle (Fin a) PInf = True"
| "fle (Fin a) NInf = False"
| "fle PInf (Fin b) = False"
| "fle PInf PInf = True"
| "fle PInf NInf = False"
| "fle NInf (Fin b) = True"
| "fle NInf PInf = True"
| "fle NInf NInf = True"
| "fle NaN y = False"
| "fle x NaN = False"





text \<open>
  The stock ledger adds and subtracts Python numbers.  Its arithmetic is taken as that
  of \<open>float\<close> (binary64): the exact result is rounded to the nearest value with a
  53-bit significand, ties to the even one.  Python ints below \<open>2 ^ 53\<close> in magnitude
  are among these values, and on them the rounding changes nothing.  Overflow and
  subnormal results are not modelled.
\<close>

definition round_half_even :: "real \<Rightarrow> int" where
  "round_half_even x =
     (let n = \<lfloor>x\<rfloor>; f = x - of_int n
      in if f < 1 / 2 then n else if 1 / 2 < f then n + 1
         else if even n then n else n + 1)"

definition round64 :: "real \<Rightarrow> real" where
  "round64 x =
     (if x = 0 then 0
      else let e = \<lfloor>log 2 \<bar>x\<bar>\<rfloor>; q = 2 powr (of_int e - 52)
           in q * of_int (round_half_even (x / q)))"

section \<open>Configuration and data\<close>

text \<open>\<open>config/constants.py\<close>: the numeric entries of \<open>INVENTORY_PARAMETERS\<close>.\<close>

record inventory_parameters =
  PRICE_PER_KG :: real
  CONTAINER_SIZE :: real
  TRANSPORT_COST :: real
  HOLDING_RATE :: real
  SUB_LOSS_RANGE :: "real \<times> real"
  LEAD_TIME_DAYS :: real
  SERVICE_LEVEL :: real

definition INVENTORY_PARAMETERS :: inventory_parameters where
  "INVENTORY_PARAMETERS =
     \<lparr>PRICE_PER_KG = 146.55, CONTAINER_SIZE = 150, TRANSPORT_COST = 1741.94,
      HOLDING_RATE = 0.03, SUB_LOSS_RANGE = (2.27, 4.54), LEAD_TIME_DAYS = 1,
      SERVICE_LEVEL = 0.95\<rparr>"

text \<open>
  A row of the data frame, with the columns the analyzer reads.  \<open>Date\<close> is a calendar
  day (a day number); the quantities of a loaded file are finite numbers.
\<close>

record order_row =
  Date :: int
  Order_Quantity_kg :: real
  Containers_Used :: real
  Total_Cost :: real

text \<open>The derived columns as \<open>DataLoader.load_orders\<close> fills them in.\<close>

definition load_row :: "inventory_parameters \<Rightarrow> int \<Rightarrow> real \<Rightarrow> order_row" where
  "load_row c d q =
     \<lparr>Date = d, Order_Quantity_kg = q,
      Containers_Used = of_int \<lceil>q / CONTAINER_SIZE c\<rceil>,
      Total_Cost = q * PRICE_PER_KG c\<rparr>"

record DryIceAnalyzer =
  df :: "order_row list"
  constants :: inventory_parameters

subsection \<open>pandas reductions\<close>

definition pd_sum :: "real list \<Rightarrow> npfloat" where
  "pd_sum xs = Fin (sum_list xs)"

text \<open>The mean of an empty column is NaN.\<close>

definition pd_mean :: "real list \<Rightarrow> npfloat" where
  "pd_mean xs = (if xs = [] then NaN else Fin (sum_list xs / real (length xs)))"

text \<open>
  \<open>Series.std()\<close> is the sample standard deviation (\<open>ddof=1\<close>): with fewer than two
  values it is NaN.
\<close>

definition pd_std :: "real list \<Rightarrow> npfloat" where
  "pd_std xs =
     (if length xs < 2 then NaN
      else let m = sum_list xs / real (length xs)
           in Fin (sqrt (sum_list (map (\<lambda>x. (x - m)\<^sup>2) xs) / real (length xs - 1))))"

text \<open>
  \<open>(df['Date'].max() - df['Date'].min()).days\<close>; on an empty frame both are \<open>NaT\<close>
  and the result is NaN, here \<open>None\<close>.
\<close>

fun time_span_days :: "order_row list \<Rightarrow> int option" where
  "time_span_days [] = None"
| "time_span_days (r # rs) =
     Some (fold max (map Date rs) (Date r) - fold min (map Date rs) (Date r))"

text \<open>
  \<open>df.groupby(df['Date'].dt.date)['Order_Quantity_kg'].sum()\<close>: one total per distinct
  day, the days in ascending order.
\<close>

definition daily_demand :: "order_row list \<Rightarrow> real list" where
  "daily_demand d =
     map (\<lambda>day. sum_list (map Order_Quantity_kg (filter (\<lambda>r. Date r = day) d)))
         (sort (remdups (map Date d)))"

subsection \<open>Python faults\<close>

datatype py_error = ZeroDivisionError

text \<open>\<open>a / b\<close> on two Python ints raises on a zero divisor.\<close>

definition py_truediv :: "int \<Rightarrow> int \<Rightarrow> py_error + npfloat" where
  "py_truediv a b = (if b = 0 then Inl ZeroDivisionError else Inr (Fin (of_int a / of_int b)))"

definition bind_err :: "'e + 'a \<Rightarrow> ('a \<Rightarrow> 'e + 'b) \<Rightarrow> 'e + 'b" where
  "bind_err m f = (case m of Inl e \<Rightarrow> Inl e | Inr x \<Rightarrow> f x)"

section \<open>The analyzer (\<open>app/core/analyzer.py\<close>)\<close>

record kpis =
  total_orders :: nat
  total_volume :: npfloat
  avg_order_size :: npfloat
  std_order_size :: npfloat
  avg_monthly_demand :: npfloat
  current_monthly_volume :: npfloat
  order_frequency :: npfloat
  container_utilization :: npfloat
  total_cost :: npfloat
  avg_cost_per_order :: npfloat

text \<open>
  \<open>calculate_kpis\<close> is modelled for data frames with at least one row, whose columns
  are numeric and whose reductions are numpy scalars.  On an empty frame the code's
  outcome depends on the column types (the frame of a file with a header only has
  object columns, its sums are Python ints and the utilization division raises
  \<open>ZeroDivisionError\<close>); what the definition returns on \<open>[]\<close> is the outcome for empty
  numeric columns, and no property below is stated for it.
\<close>

definition calculate_kpis :: "DryIceAnalyzer \<Rightarrow> py_error + kpis" where
  "calculate_kpis a =
     (let d = df a;
          qs = map Order_Quantity_kg d;
          total_volume = pd_sum qs;
          avg_order = pd_mean qs;
          std_order = pd_std qs;
          avg_monthly_demand = fmul avg_order (Fin 30);
          ts = time_span_days d;
          current_monthly_volume =
            (case ts of
               Some t \<Rightarrow> if 0 < t then fmul (fdiv total_volume (Fin (of_int t))) (Fin 30)
                         else avg_monthly_demand
             | None \<Rightarrow> avg_monthly_demand)
      in bind_err
           (case ts of
              Some t \<Rightarrow> if 0 < t
                        then bind_err (py_truediv (int (length d)) t)
                               (\<lambda>f. Inr (fmul f (Fin 30)))
                        else Inr (Fin 30)
            | None \<Rightarrow> Inr (Fin 30))
           (\<lambda>order_frequency.
              Inr \<lparr>total_orders = length d,
                   total_volume = total_volume,
                   avg_order_size = avg_order,
                   std_order_size = std_order,
                   avg_monthly_demand = avg_monthly_demand,
                   current_monthly_volume = current_monthly_volume,
                   order_frequency = order_frequency,
                   container_utilization =
                     fdiv (pd_sum qs)
                       (fmul (pd_sum (map Containers_Used d)) (Fin (CONTAINER_SIZE (constants a)))),
                   total_cost = pd_sum (map Total_Cost d),
                   avg_cost_per_order = pd_mean (map Total_Cost d)\<rparr>))"

definition calculate_eoq :: "DryIceAnalyzer \<Rightarrow> py_error + npfloat" where
  "calculate_eoq a =
     bind_err (calculate_kpis a) (\<lambda>kpis.
       let demand = avg_monthly_demand kpis
       in Inr (fsqrt
            (fdiv (fmul (fmul (Fin 2) demand) (Fin (TRANSPORT_COST (constants a))))
                  (Fin (HOLDING_RATE (constants a) * PRICE_PER_KG (constants a))))))"

text \<open>
  \<open>norm.ppf\<close> is scipy's inverse standard-normal distribution function; it is taken as
  the parameter \<open>ppf\<close>.
\<close>

definition calculate_safety_stock :: "(real \<Rightarrow> npfloat) \<Rightarrow> DryIceAnalyzer \<Rightarrow> npfloat" where
  "calculate_safety_stock ppf a =
     (let d = df a; dd = daily_demand d
      in if length dd < 2 then fmul (pd_mean (map Order_Quantity_kg d)) (Fin 0.5)
         else let daily_std = pd_std dd;
                  z_score = ppf (SERVICE_LEVEL (constants a));
                  lead_time_factor = fsqrt (Fin (LEAD_TIME_DAYS (constants a)))
              in fmul (fmul z_score daily_std) lead_time_factor)"



section \<open>The stock ledger (\<open>app/core/inventory_tracker.py\<close>)\<close>

text \<open>
  \<open>datetime.now()\<close> is read from the environment: each function that reads the clock
  takes the value read as an argument.  Stock levels and quantities are finite numbers,
  and \<open>-=\<close> and \<open>+=\<close> on them round as \<open>round64\<close> says.
\<close>

type_synonym datetime = nat

record transaction =
  timestamp :: datetime
  quantity :: real
  type :: string
  balance :: real

record InventoryTracker =
  current_stock :: real
  dry_ice_analyzer :: DryIceAnalyzer
  alerts_enabled :: bool
  stock_history :: "transaction list"

text \<open>
  An alert; the message \<open>f"{message} - Current stock: {self.current_stock} kg"\<close> is kept
  as its two parts, the text and the stock level printed into it.
\<close>

record alert =
  alert_timestamp :: datetime
  message :: "string \<times> real"
  priority :: string


definition InventoryTracker_init :: "real \<Rightarrow> DryIceAnalyzer \<Rightarrow> InventoryTracker" where
  "InventoryTracker_init initial_stock analyzer =
     \<lparr>current_stock = initial_stock, dry_ice_analyzer = analyzer,
      alerts_enabled = True, stock_history = []\<rparr>"

definition reorder_point :: "(real \<Rightarrow> npfloat) \<Rightarrow> InventoryTracker \<Rightarrow> py_error + npfloat" where
  "reorder_point ppf t =
     bind_err (calculate_eoq (dry_ice_analyzer t)) (\<lambda>eoq.
       let safety_stock = calculate_safety_stock ppf (dry_ice_analyzer t)
       in Inr (fadd eoq safety_stock))"

definition safety_stock :: "(real \<Rightarrow> npfloat) \<Rightarrow> InventoryTracker \<Rightarrow> npfloat" where
  "safety_stock ppf t = calculate_safety_stock ppf (dry_ice_analyzer t)"

definition log_transaction :: "datetime \<Rightarrow> real \<Rightarrow> string \<Rightarrow> InventoryTracker \<Rightarrow> InventoryTracker" where
  "log_transaction now q ty t =
     t\<lparr>stock_history := stock_history t @
          [\<lparr>timestamp = now, quantity = q, type = ty, balance = current_stock t\<rparr>]\<rparr>"

definition send_alert :: "(real \<Rightarrow> npfloat) \<Rightarrow> datetime \<Rightarrow> string \<Rightarrow> InventoryTracker \<Rightarrow> alert" where
  "send_alert ppf now msg t =
     \<lparr>alert_timestamp = now,
      message = (msg, current_stock t),
      priority = (if fle (Fin (current_stock t)) (safety_stock ppf t) then ''HIGH'' else ''MEDIUM'')\<rparr>"

definition check_reorder_point ::
    "(real \<Rightarrow> npfloat) \<Rightarrow> datetime \<Rightarrow> InventoryTracker \<Rightarrow> py_error + alert option" where
  "check_reorder_point ppf now t =
     bind_err (reorder_point ppf t) (\<lambda>rp.
       if fle (Fin (current_stock t)) rp
       then Inr (Some (send_alert ppf now ''REORDER REQUIRED'' t))
       else Inr None)"

text \<open>
  \<open>update_stock\<close> mutates the tracker and then evaluates the reorder condition: the new
  state is returned beside the result.  \<open>now_log\<close> and \<open>now_alert\<close> are the two clock
  readings, of the log entry and of the alert.
\<close>

definition update_stock ::
    "(real \<Rightarrow> npfloat) \<Rightarrow> datetime \<Rightarrow> datetime \<Rightarrow> real \<Rightarrow> string \<Rightarrow> InventoryTracker
       \<Rightarrow> (py_error + alert option) \<times> InventoryTracker" where
  "update_stock ppf now_log now_alert quantity_used transaction_type t =
     (let t1 = t\<lparr>current_stock := round64 (current_stock t - quantity_used)\<rparr>;
          t2 = log_transaction now_log quantity_used transaction_type t1
      in (check_reorder_point ppf now_alert t2, t2))"


subsection \<open>The sidebar handlers of \<open>app/main.py\<close>\<close>



text \<open>A sequence of \<open>update_stock\<close> calls, each with its clock readings and arguments.\<close>

fun run_updates ::
    "(real \<Rightarrow> npfloat) \<Rightarrow> (datetime \<times> datetime \<times> real \<times> string) list \<Rightarrow> InventoryTracker
       \<Rightarrow> InventoryTracker" where
  "run_updates ppf [] t = t"
| "run_updates ppf ((now_log, now_alert, q, ty) # cs) t =
     run_updates ppf cs (snd (update_stock ppf now_log now_alert q ty t))"



text \<open>
  The invariants of the data model: a data frame has at least one row and every order
  quantity is positive; the cost parameters that enter the cost formulas are positive,
  as the shipped ones are.
\<close>

definition valid_orders :: "order_row list \<Rightarrow> bool" where
  "valid_orders d = (d \<noteq> [] \<and> list_all (\<lambda>r. 0 < Order_Quantity_kg r) d)"

definition positive_parameters :: "inventory_parameters \<Rightarrow> bool" where
  "positive_parameters c = (0 < TRANSPORT_COST c \<and> 0 < HOLDING_RATE c \<and> 0 < PRICE_PER_KG c)"

section \<open>Sample inputs\<close>

text \<open>
  Data frames of one and of two orders, under the shipped parameters; day numbers count
  from 1970-01-01, so 19905 is 2024-07-01.
\<close>

definition one_order :: DryIceAnalyzer where
  "one_order =
     \<lparr>df = [load_row INVENTORY_PARAMETERS 19905 150], constants = INVENTORY_PARAMETERS\<rparr>"

definition zero_order :: DryIceAnalyzer where
  "zero_order =
     \<lparr>df = [load_row INVENTORY_PARAMETERS 19905 0], constants = INVENTORY_PARAMETERS\<rparr>"

definition two_orders :: DryIceAnalyzer where
  "two_orders =
     \<lparr>df = [load_row INVENTORY_PARAMETERS 19905 100, load_row INVENTORY_PARAMETERS 19915 200],
      constants = INVENTORY_PARAMETERS\<rparr>"

text \<open>A stand-in for \<open>norm.ppf\<close> in sample evaluations: \<open>norm.ppf(0.95)\<close> is about 1.645.\<close>

definition sample_ppf :: "real \<Rightarrow> npfloat" where
  "sample_ppf p = Fin 1.645"

text \<open>The tracker as \<open>app/main.py\<close> creates it (\<open>initial_stock=2000\<close>), over one order.\<close>

definition sample_tracker :: InventoryTracker where
  "sample_tracker = InventoryTracker_init 2000 one_order"




text \<open>Two consumptions, with the default transaction type of \<open>update_stock\<close>.\<close>

definition sample_calls :: "(datetime \<times> datetime \<times> real \<times> string) list" where
  "sample_calls = [(1, 2, 150, ''Consumption''), (3, 4, 200, ''Consumption'')]"

section \<open>Properties of the KPI computation\<close>

text \<open>
  The fields of the result.  The one division of Python ints,
  \<open>len(df) / time_span_days\<close>, is only evaluated when the divisor is positive.
\<close>

lemma calculate_kpis_fields:
  "\<exists>k. calculate_kpis a = Inr k
     \<and> total_orders k = length (df a)
     \<and> total_volume k = pd_sum (map Order_Quantity_kg (df a))
     \<and> avg_order_size k = pd_mean (map Order_Quantity_kg (df a))
     \<and> std_order_size k = pd_std (map Order_Quantity_kg (df a))
     \<and> avg_monthly_demand k = fmul (pd_mean (map Order_Quantity_kg (df a))) (Fin 30)
     \<and> current_monthly_volume k =
         (case time_span_days (df a) of
            Some t \<Rightarrow> if 0 < t
                      then fmul (fdiv (pd_sum (map Order_Quantity_kg (df a))) (Fin (of_int t))) (Fin 30)
                      else fmul (pd_mean (map Order_Quantity_kg (df a))) (Fin 30)
          | None \<Rightarrow> fmul (pd_mean (map Order_Quantity_kg (df a))) (Fin 30))
     \<and> order_frequency k =
         (case time_span_days (df a) of
            Some t \<Rightarrow> if 0 < t then Fin (real (length (df a)) / of_int t * 30) else Fin 30
          | None \<Rightarrow> Fin 30)"
  by (cases "time_span_days (df a)")
     (simp_all add: calculate_kpis_def Let_def bind_err_def py_truediv_def)

lemma time_span_days_single: "length d = 1 \<Longrightarrow> time_span_days d = Some 0"
  by (cases d) simp_all

lemmas sample_defs =
  one_order_def zero_order_def two_orders_def load_row_def INVENTORY_PARAMETERS_def

lemma time_span_days_nonempty: "d \<noteq> [] \<Longrightarrow> \<exists>t. time_span_days d = Some t"
  by (cases d) simp_all

text \<open>
  Claim C7.  On a data frame with at least one row whose dates span no positive number
  of days (a single row spans 0 days) \<open>calculate_kpis\<close> returns without a fault,
  \<open>current_monthly_volume\<close> is \<open>avg_monthly_demand\<close> and \<open>order_frequency\<close> is 30.  On
  a span of \<open>t > 0\<close> days, \<open>current_monthly_volume\<close> is \<open>total_volume / t * 30\<close> and
  \<open>order_frequency\<close> is \<open>len(df) / t * 30\<close>.
\<close>

theorem kpis_time_span_fallback:
  assumes "df a \<noteq> []"
  shows "\<exists>k t. calculate_kpis a = Inr k \<and> time_span_days (df a) = Some t
     \<and> (length (df a) = 1 \<longrightarrow> t = 0)
     \<and> (t \<le> 0
          \<longrightarrow> current_monthly_volume k = avg_monthly_demand k \<and> order_frequency k = Fin 30)
     \<and> (0 < t
          \<longrightarrow> current_monthly_volume k = fmul (fdiv (total_volume k) (Fin (of_int t))) (Fin 30)
            \<and> current_monthly_volume k
                = Fin (sum_list (map Order_Quantity_kg (df a)) / of_int t * 30)
            \<and> order_frequency k = Fin (real (length (df a)) / of_int t * 30))"
proof -
  obtain t where t: "time_span_days (df a) = Some t"
    using time_span_days_nonempty [OF assms] by blast
  obtain k where k: "calculate_kpis a = Inr k"
    and tv: "total_volume k = pd_sum (map Order_Quantity_kg (df a))"
    and amd: "avg_monthly_demand k = fmul (pd_mean (map Order_Quantity_kg (df a))) (Fin 30)"
    and cmv: "current_monthly_volume k =
         (if 0 < t
          then fmul (fdiv (pd_sum (map Order_Quantity_kg (df a))) (Fin (of_int t))) (Fin 30)
          else fmul (pd_mean (map Order_Quantity_kg (df a))) (Fin 30))"
    and freq: "order_frequency k =
         (if 0 < t then Fin (real (length (df a)) / of_int t * 30) else Fin 30)"
    using calculate_kpis_fields [of a] by (auto simp: t)
  have single: "length (df a) = 1 \<longrightarrow> t = 0"
    using time_span_days_single [of "df a"] t by auto
  have fallback: "t \<le> 0
          \<longrightarrow> current_monthly_volume k = avg_monthly_demand k \<and> order_frequency k = Fin 30"
    using cmv freq amd by auto
  have positive: "0 < t
          \<longrightarrow> current_monthly_volume k = fmul (fdiv (total_volume k) (Fin (of_int t))) (Fin 30)
            \<and> current_monthly_volume k
                = Fin (sum_list (map Order_Quantity_kg (df a)) / of_int t * 30)
            \<and> order_frequency k = Fin (real (length (df a)) / of_int t * 30)"
    using cmv freq tv by (auto simp: pd_sum_def)
  from k t single fallback positive show ?thesis by blast
qed

theorem kpis_time_span_fallback_witness:
  "df one_order \<noteq> [] \<and> length (df one_order) = 1 \<and> time_span_days (df one_order) = Some 0
   \<and> (0::int) \<le> 0
   \<and> map_sum id current_monthly_volume (calculate_kpis one_order) = Inr (Fin 4500)
   \<and> map_sum id avg_monthly_demand (calculate_kpis one_order) = Inr (Fin 4500)
   \<and> map_sum id order_frequency (calculate_kpis one_order) = Inr (Fin 30)
   \<and> df two_orders \<noteq> [] \<and> time_span_days (df two_orders) = Some 10 \<and> (0::int) < 10
   \<and> map_sum id current_monthly_volume (calculate_kpis two_orders) = Inr (Fin 900)
   \<and> map_sum id order_frequency (calculate_kpis two_orders) = Inr (Fin 6)"
proof -
  have ne: "df one_order \<noteq> []" "df two_orders \<noteq> []"
    by (simp_all add: sample_defs)
  show ?thesis
    using kpis_time_span_fallback [OF ne(1)] kpis_time_span_fallback [OF ne(2)]
    by (simp add: sample_defs calculate_kpis_def Let_def bind_err_def py_truediv_def
          pd_sum_def pd_mean_def)
qed

text \<open>
  Claim C8, as the code has it.  On a data frame of exactly one row (a frame with rows,
  but fewer than two) \<open>calculate_kpis\<close> returns without an error, and \<open>std_order_size\<close>
  is NaN, the missing value of pandas: the sample standard deviation divides by
  \<open>n - 1\<close>, and no branch of \<open>calculate_kpis\<close> replaces the NaN by 0.
\<close>

theorem kpis_std_fewer_than_two:
  "length (df a) = 1 \<Longrightarrow> \<exists>k. calculate_kpis a = Inr k \<and> std_order_size k = NaN"
  using calculate_kpis_fields [of a] by (auto simp: pd_std_def)

theorem kpis_std_fewer_than_two_witness:
  "length (df one_order) = 1
   \<and> map_sum id std_order_size (calculate_kpis one_order) = Inr NaN"
  using kpis_std_fewer_than_two [of one_order]
  by (simp add: sample_defs calculate_kpis_def Let_def bind_err_def pd_std_def)

text \<open>The claim as the specification words it fails on a single order of 150 kg.\<close>

theorem kpis_std_single_row_not_zero:
  "map_sum id std_order_size (calculate_kpis one_order) = Inr NaN
   \<and> map_sum id std_order_size (calculate_kpis one_order) \<noteq> Inr (Fin 0)"
  by (simp add: sample_defs calculate_kpis_def Let_def bind_err_def pd_std_def)

section \<open>Properties of the policy engine\<close>

lemma calculate_eoq_eq:
  "calculate_eoq a =
     Inr (fsqrt (fdiv
       (fmul (fmul (Fin 2) (fmul (pd_mean (map Order_Quantity_kg (df a))) (Fin 30)))
             (Fin (TRANSPORT_COST (constants a))))
       (Fin (HOLDING_RATE (constants a) * PRICE_PER_KG (constants a)))))"
  using calculate_kpis_fields [of a] by (auto simp: calculate_eoq_def bind_err_def Let_def)

text \<open>The value of the worked example lies between 1888.35 and 1888.36.\<close>

lemma example_sqrt_bounds:
  "1888.35 < sqrt (2 * 4500 * 1741.94 / (0.03 * 146.55))"
  "sqrt (2 * 4500 * 1741.94 / (0.03 * 146.55)) < 1888.36"
proof -
  show "1888.35 < sqrt (2 * 4500 * 1741.94 / (0.03 * 146.55))"
    by (rule real_less_rsqrt) (simp add: power2_eq_square)
  show "sqrt (2 * 4500 * 1741.94 / (0.03 * 146.55)) < 1888.36"
    by (rule real_less_lsqrt) (simp_all add: power2_eq_square)
qed

text \<open>
  Claim C9, with the value the formula has.  Under the shipped parameters and an average
  monthly demand of 4500, \<open>calculate_eoq\<close> returns
  \<open>sqrt (2 * 4500 * 1741.94 / (0.03 * 146.55))\<close>, which is 1888.4 to one decimal place.
\<close>

theorem eoq_example:
  assumes "calculate_kpis a = Inr k" and "avg_monthly_demand k = Fin 4500"
    and "constants a = INVENTORY_PARAMETERS"
  shows "calculate_eoq a = Inr (Fin (sqrt (2 * 4500 * 1741.94 / (0.03 * 146.55))))
         \<and> \<bar>sqrt (2 * 4500 * 1741.94 / (0.03 * 146.55)) - 1888.4\<bar> < 0.05"
proof -
  have "calculate_eoq a = Inr (Fin (sqrt (2 * 4500 * 1741.94 / (0.03 * 146.55))))"
    using assms by (simp add: calculate_eoq_def bind_err_def Let_def INVENTORY_PARAMETERS_def)
  then show ?thesis using example_sqrt_bounds by (simp add: abs_less_iff)
qed

lemma one_order_demand:
  "\<exists>k. calculate_kpis one_order = Inr k \<and> avg_monthly_demand k = Fin 4500"
  using calculate_kpis_fields [of one_order] by (auto simp: sample_defs pd_mean_def)

theorem eoq_example_witness:
  "map_sum id avg_monthly_demand (calculate_kpis one_order) = Inr (Fin 4500)
   \<and> constants one_order = INVENTORY_PARAMETERS
   \<and> calculate_eoq one_order = Inr (Fin (sqrt (2 * 4500 * 1741.94 / (0.03 * 146.55))))
   \<and> \<bar>sqrt (2 * 4500 * 1741.94 / (0.03 * 146.55)) - 1888.4\<bar> < 0.05"
proof -
  obtain k where k: "calculate_kpis one_order = Inr k" "avg_monthly_demand k = Fin 4500"
    using one_order_demand by blast
  have c: "constants one_order = INVENTORY_PARAMETERS"
    by (simp add: one_order_def)
  show ?thesis using eoq_example [OF k c] k c by simp
qed

text \<open>The value is more than 3.5 kg below the 1891.9 kg of the specification.\<close>

theorem example_value_not_1891_9:
  "calculate_eoq one_order = Inr (Fin (sqrt (2 * 4500 * 1741.94 / (0.03 * 146.55))))
   \<and> 3.5 < 1891.9 - sqrt (2 * 4500 * 1741.94 / (0.03 * 146.55))"
proof -
  have "calculate_eoq one_order = Inr (Fin (sqrt (2 * 4500 * 1741.94 / (0.03 * 146.55))))"
    by (simp add: calculate_eoq_eq sample_defs pd_mean_def)
  then show ?thesis using example_sqrt_bounds(2) by simp
qed

text \<open>
  Claim C1.  Whatever \<open>calculate_eoq\<close> and \<open>calculate_safety_stock\<close> return on the
  tracker's analyzer, the tracker's \<open>reorder_point\<close> is their floating-point sum: for
  finite values the sum of the two numbers.  The tracker stores no reorder point of its own.
\<close>

theorem reorder_point_eoq_plus_safety_stock:
  assumes "calculate_eoq (dry_ice_analyzer t) = Inr e"
    and "calculate_safety_stock ppf (dry_ice_analyzer t) = s"
  shows "reorder_point ppf t = Inr (fadd e s)
         \<and> (\<forall>x y. e = Fin x \<and> s = Fin y \<longrightarrow> reorder_point ppf t = Inr (Fin (x + y)))"
  using assms by (auto simp: reorder_point_def bind_err_def Let_def)

lemma one_order_safety_stock: "calculate_safety_stock ppf one_order = Fin 75"
  by (simp add: calculate_safety_stock_def daily_demand_def Let_def sample_defs pd_mean_def)

theorem reorder_point_eoq_plus_safety_stock_witness:
  "calculate_eoq (dry_ice_analyzer sample_tracker)
     = Inr (Fin (sqrt (2 * 4500 * 1741.94 / (0.03 * 146.55))))
   \<and> calculate_safety_stock sample_ppf (dry_ice_analyzer sample_tracker) = Fin 75
   \<and> reorder_point sample_ppf sample_tracker
       = Inr (Fin (sqrt (2 * 4500 * 1741.94 / (0.03 * 146.55)) + 75))"
proof -
  have a: "dry_ice_analyzer sample_tracker = one_order"
    by (simp add: sample_tracker_def InventoryTracker_init_def)
  have e: "calculate_eoq (dry_ice_analyzer sample_tracker)
     = Inr (Fin (sqrt (2 * 4500 * 1741.94 / (0.03 * 146.55))))"
    unfolding a by (simp add: calculate_eoq_eq sample_defs pd_mean_def)
  have s: "calculate_safety_stock sample_ppf (dry_ice_analyzer sample_tracker) = Fin 75"
    unfolding a by (rule one_order_safety_stock)
  show ?thesis using reorder_point_eoq_plus_safety_stock [OF e s] e s by simp
qed

section \<open>Properties of the cost comparison\<close>















lemma fadd_NaN_right [simp]: "fadd x NaN = NaN"
  by (cases x) simp_all

lemma fmul_NaN_right [simp]: "fmul x NaN = NaN"
  by (cases x) simp_all

lemma fdiv_NaN_right [simp]: "fdiv x NaN = NaN"
  by (cases x) simp_all

lemma sum_list_positive:
  "xs \<noteq> [] \<Longrightarrow> list_all (\<lambda>x. 0 < x) xs \<Longrightarrow> 0 < sum_list (xs :: real list)"
proof (induction xs)
  case Nil
  then show ?case by simp
next
  case (Cons x xs)
  show ?case
  proof (cases "xs = []")
    case True
    with Cons.prems show ?thesis by simp
  next
    case False
    with Cons have "0 < x" "0 < sum_list xs" by simp_all
    then show ?thesis by (simp add: add_pos_pos)
  qed
qed


lemma valid_orders_kpis:
  assumes "calculate_kpis a = Inr k" and "valid_orders (df a)"
  shows "\<exists>m v. 0 < m \<and> 0 < v \<and> avg_order_size k = Fin m \<and> current_monthly_volume k = Fin v"
proof -
  let ?qs = "map Order_Quantity_kg (df a)"
  have ne: "?qs \<noteq> []" and "list_all (\<lambda>x. 0 < x) ?qs"
    using assms(2) by (simp_all add: valid_orders_def list_all_iff)
  then have tot: "0 < sum_list ?qs" by (rule sum_list_positive)
  have len: "0 < real (length ?qs)" using ne by simp
  have m: "0 < sum_list ?qs / real (length ?qs)"
    using tot len by (rule divide_pos_pos)
  have m30: "0 < sum_list ?qs * 30 / real (length ?qs)"
    using tot len by simp
  have avg: "avg_order_size k = Fin (sum_list ?qs / real (length ?qs))"
    using calculate_kpis_fields [of a] assms(1) ne by (auto simp: pd_mean_def)
  have "\<exists>v. 0 < v \<and> current_monthly_volume k = Fin v"
  proof (cases "time_span_days (df a)")
    case None
    then show ?thesis
      using calculate_kpis_fields [of a] assms(1) ne m30 by (auto simp: pd_mean_def)
  next
    case (Some t)
    show ?thesis
    proof (cases "0 < t")
      case True
      then have "0 < sum_list ?qs / of_int t * 30" using tot by simp
      then show ?thesis
        using calculate_kpis_fields [of a] assms(1) Some True by (auto simp: pd_sum_def)
    next
      case False
      then show ?thesis
        using calculate_kpis_fields [of a] assms(1) Some ne m30 by (auto simp: pd_mean_def)
    qed
  qed
  then show ?thesis using avg m by blast
qed












section \<open>Properties of the stock ledger\<close>

lemma round_half_even_of_int [simp]: "round_half_even (of_int m) = m"
  by (simp add: round_half_even_def)

text \<open>Integers below \<open>2 ^ 53\<close> in magnitude are not changed by the rounding.\<close>

lemma round64_of_int:
  assumes "\<bar>n\<bar> < 2 ^ 53"
  shows "round64 (of_int n) = of_int n"
proof (cases "n = 0")
  case True
  then show ?thesis by (simp add: round64_def)
next
  case False
  let ?x = "of_int n :: real"
  define e where "e = \<lfloor>log 2 \<bar>?x\<bar>\<rfloor>"
  have x1: "1 \<le> \<bar>?x\<bar>" using False by (simp flip: of_int_abs)
  have x2: "\<bar>?x\<bar> < 2 ^ 53" using assms by (simp flip: of_int_abs)
  have "0 \<le> log 2 \<bar>?x\<bar>" using x1 by simp
  then have e0: "0 \<le> e" by (simp add: e_def)
  have "log 2 (2 ^ 53) = (53::real)"
    by (simp only: log_pow_cancel [of 2 53])
  moreover have "log 2 \<bar>?x\<bar> < log 2 (2 ^ 53)" using x1 x2 by simp
  ultimately have "log 2 \<bar>?x\<bar> < 53" by (simp only:)
  then have e52: "e \<le> 52" unfolding e_def by linarith
  define j where "j = nat (52 - e)"
  have je: "real_of_int e - 52 = - real j" using e52 by (simp add: j_def)
  have q: "(2::real) powr (of_int e - 52) = 1 / 2 ^ j"
    unfolding je by (simp add: powr_minus powr_realpow divide_inverse)
  have "?x / (1 / 2 ^ j) = of_int (n * 2 ^ j)" by simp
  then have "round_half_even (?x / (1 / 2 ^ j)) = n * 2 ^ j"
    by (simp only: round_half_even_of_int)
  then have "round64 ?x = (1 / 2 ^ j) * of_int (n * 2 ^ j)"
    using False by (simp add: round64_def Let_def e_def [symmetric] q)
  then show ?thesis by simp
qed


lemma round64_samples:
  "round64 1150 = 1150" "round64 2000 = 2000" "round64 1850 = 1850" "round64 1650 = 1650"
  "round64 75 = 75"
  using round64_of_int [of 1150] round64_of_int [of 2000] round64_of_int [of 1850]
    round64_of_int [of 1650] round64_of_int [of 75]
  by simp_all

lemma update_stock_state:
  "snd (update_stock ppf n1 n2 q ty t) =
     t\<lparr>current_stock := round64 (current_stock t - q),
       stock_history := stock_history t @
         [\<lparr>timestamp = n1, quantity = q, type = ty,
           balance = round64 (current_stock t - q)\<rparr>]\<rparr>"
  by (simp add: update_stock_def log_transaction_def Let_def)





lemma run_updates_append:
  "run_updates ppf (cs @ ds) t = run_updates ppf ds (run_updates ppf cs t)"
  by (induction cs arbitrary: t) auto

lemma run_updates_history:
  "\<exists>new. stock_history (run_updates ppf cs t) = stock_history t @ new \<and> length new = length cs"
proof (induction cs arbitrary: t)
  case Nil
  show ?case by simp
next
  case (Cons c cs)
  obtain n1 n2 q ty where c: "c = (n1, n2, q, ty)" by (cases c) auto
  let ?t1 = "snd (update_stock ppf n1 n2 q ty t)"
  obtain new where new: "stock_history (run_updates ppf cs ?t1) = stock_history ?t1 @ new"
    "length new = length cs"
    using Cons.IH [of ?t1] by blast
  have "stock_history (run_updates ppf (c # cs) t) =
      stock_history t @ (\<lparr>timestamp = n1, quantity = q, type = ty, balance = round64 (current_stock t - q)\<rparr> # new)"
    using new by (simp add: c update_stock_state)
  moreover have "length (\<lparr>timestamp = n1, quantity = q, type = ty, balance = round64 (current_stock t - q)\<rparr> # new) = length (c # cs)"
    using new by simp
  ultimately show ?case by blast
qed

lemma run_updates_length:
  "length (stock_history (run_updates ppf cs t)) = length (stock_history t) + length cs"
  using run_updates_history [of ppf cs t] by auto

lemma run_updates_prefix:
  assumes "i \<le> length cs"
  shows "take (length (stock_history t) + i) (stock_history (run_updates ppf cs t))
           = stock_history (run_updates ppf (take i cs) t)"
proof -
  let ?t1 = "run_updates ppf (take i cs) t"
  have "run_updates ppf cs t = run_updates ppf (drop i cs) ?t1"
    using run_updates_append [of ppf "take i cs" "drop i cs" t] by simp
  then obtain new where "stock_history (run_updates ppf cs t) = stock_history ?t1 @ new"
    using run_updates_history [of ppf "drop i cs" ?t1] by auto
  moreover have "length (stock_history ?t1) = length (stock_history t) + i"
    using assms by (simp add: run_updates_length min_absorb2)
  ultimately show ?thesis by simp
qed

lemma run_updates_snoc_last:
  "cs \<noteq> [] \<Longrightarrow>
     balance (last (stock_history (run_updates ppf cs t))) = current_stock (run_updates ppf cs t)"
proof (induction cs rule: rev_induct)
  case Nil
  then show ?case by simp
next
  case (snoc c cs)
  obtain n1 n2 q ty where c: "c = (n1, n2, q, ty)" by (cases c) auto
  show ?case by (simp add: run_updates_append c update_stock_state)
qed

text \<open>
  Claim C10.  A call of \<open>update_stock\<close> appends one entry, whose balance is the stock
  after the call.  Over a sequence of calls the log grows by one entry per call, the log
  after the first \<open>i\<close> calls is an initial segment of the final log (no entry is changed
  or removed), and the balance of the entry of call \<open>i\<close> is the stock right after it.
\<close>

theorem update_stock_log_append_only:
  "stock_history (snd (update_stock ppf n1 n2 q ty t))
     = stock_history t @
         [\<lparr>timestamp = n1, quantity = q, type = ty,
           balance = current_stock (snd (update_stock ppf n1 n2 q ty t))\<rparr>]
   \<and> length (stock_history (run_updates ppf cs t)) = length (stock_history t) + length cs
   \<and> (\<forall>i \<le> length cs.
        take (length (stock_history t) + i) (stock_history (run_updates ppf cs t))
          = stock_history (run_updates ppf (take i cs) t))
   \<and> (\<forall>i < length cs.
        balance (stock_history (run_updates ppf cs t) ! (length (stock_history t) + i))
          = current_stock (run_updates ppf (take (Suc i) cs) t))"
proof -
  have step: "stock_history (snd (update_stock ppf n1 n2 q ty t))
     = stock_history t @
         [\<lparr>timestamp = n1, quantity = q, type = ty,
           balance = current_stock (snd (update_stock ppf n1 n2 q ty t))\<rparr>]"
    by (simp add: update_stock_state)
  have bal: "balance (stock_history (run_updates ppf cs t) ! (length (stock_history t) + i))
          = current_stock (run_updates ppf (take (Suc i) cs) t)" if i: "i < length cs" for i
  proof -
    let ?h = "stock_history (run_updates ppf (take (Suc i) cs) t)"
    have ne: "take (Suc i) cs \<noteq> []" using i by (cases cs) auto
    have len: "length ?h = length (stock_history t) + Suc i"
      using i by (simp add: run_updates_length min_absorb2)
    have pre: "take (length (stock_history t) + Suc i) (stock_history (run_updates ppf cs t)) = ?h"
      using i run_updates_prefix [of "Suc i" cs t ppf] by simp
    have "?h \<noteq> []" using len by auto
    then have "last ?h = ?h ! (length ?h - 1)"
      by (rule last_conv_nth)
    then have "last ?h = ?h ! (length (stock_history t) + i)"
      using len by simp
    also have "\<dots> = stock_history (run_updates ppf cs t) ! (length (stock_history t) + i)"
      using pre [symmetric] by simp
    finally show ?thesis using run_updates_snoc_last [OF ne, of ppf t] by simp
  qed
  show ?thesis using step run_updates_length run_updates_prefix bal by blast
qed

theorem update_stock_log_append_only_witness:
  "(1::nat) \<le> length sample_calls \<and> (1::nat) < length sample_calls
   \<and> take (length (stock_history sample_tracker) + 1)
        (stock_history (run_updates sample_ppf sample_calls sample_tracker))
       = stock_history (run_updates sample_ppf (take 1 sample_calls) sample_tracker)
   \<and> balance (stock_history (run_updates sample_ppf sample_calls sample_tracker)
        ! (length (stock_history sample_tracker) + 1))
       = current_stock (run_updates sample_ppf (take (Suc 1) sample_calls) sample_tracker)
   \<and> map balance (stock_history (run_updates sample_ppf sample_calls sample_tracker))
       = [1850, 1650]
   \<and> current_stock (run_updates sample_ppf sample_calls sample_tracker) = 1650"
  using update_stock_log_append_only [of sample_ppf 1 2 150 "''Consumption''" sample_tracker sample_calls]
  by (simp add: sample_calls_def update_stock_state sample_tracker_def InventoryTracker_init_def
        round64_samples)

lemma reorder_point_level [simp]:
  "reorder_point ppf (t\<lparr>current_stock := s\<rparr>) = reorder_point ppf t"
  by (simp add: reorder_point_def)

lemma safety_stock_level [simp]:
  "safety_stock ppf (t\<lparr>current_stock := s\<rparr>) = safety_stock ppf t"
  by (simp add: safety_stock_def)






text \<open>The EOQ is positive on every valid data frame under positive cost parameters.\<close>

lemma calculate_eoq_positive:
  assumes "valid_orders (df a)" and "positive_parameters (constants a)"
  shows "\<exists>e. 0 < e \<and> calculate_eoq a = Inr (Fin e)"
proof -
  obtain k where k: "calculate_kpis a = Inr k"
    using calculate_kpis_fields [of a] by blast
  obtain m where m: "0 < m" "avg_order_size k = Fin m"
    using valid_orders_kpis [OF k assms(1)] by blast
  have mean: "pd_mean (map Order_Quantity_kg (df a)) = Fin m"
    using calculate_kpis_fields [of a] k m by auto
  let ?x = "2 * (m * 30) * TRANSPORT_COST (constants a)
              / (HOLDING_RATE (constants a) * PRICE_PER_KG (constants a))"
  have "0 < ?x"
    using m(1) assms(2) by (simp add: positive_parameters_def)
  moreover have "calculate_eoq a = Inr (Fin (sqrt ?x))"
    using assms(2) \<open>0 < ?x\<close> by (simp add: calculate_eoq_eq mean positive_parameters_def)
  ultimately show ?thesis by simp
qed






end
